theory Spec2Isabelle
  imports Complex_Main "HOL-Library.Multiset"
begin

section \<open>Numbers and Python helpers\<close>

text \<open>
  Prices, ratios and scores are Python floats (or ints that mix with floats); they are
  modelled as real numbers, so rounding error and overflow of the binary representation
  are outside the model. A value that numpy reports as \<open>nan\<close> is kept apart
  from the finite numbers.
\<close>

datatype py_error = ZeroDivisionError | KeyError | ValueError | IndexError

datatype npfloat = Finite real | NaN

text \<open>\<^verbatim>\<open>d.get(k, default)\<close> on a dict.\<close>

definition dict_get :: "('k \<rightharpoonup> 'v) \<Rightarrow> 'k \<Rightarrow> 'v \<Rightarrow> 'v" where
  "dict_get m k d = (case m k of None \<Rightarrow> d | Some v \<Rightarrow> v)"


text \<open>Sequencing: an exception raised by the first computation skips the rest.\<close>

definition and_then :: "py_error + 'a \<Rightarrow> ('a \<Rightarrow> py_error + 'b) \<Rightarrow> py_error + 'b" where
  "and_then m f = (case m of Inl e \<Rightarrow> Inl e | Inr x \<Rightarrow> f x)"

text \<open>
  \<^verbatim>\<open>round(x, 1)\<close>: Python rounds the binary float to the nearest multiple of one
  tenth. Where the real number that the float stands for lies exactly between two tenths,
  the float itself lies on one side or the other, and which neighbour Python returns
  depends on binary digits that the model does not have: \<open>float_above\<close> stands for
  that fact and is left unspecified. Nothing is proved from its value, so every statement
  about a rounded score holds for either neighbour.
\<close>

definition float_above :: "real \<Rightarrow> bool" where
  "float_above = undefined"

definition round_nearest :: "real \<Rightarrow> int" where
  "round_nearest x =
     (let f = \<lfloor>x\<rfloor>; r = x - of_int f
      in if r < 1 / 2 then f
         else if r > 1 / 2 then f + 1
         else if float_above x then f + 1 else f)"

definition round1 :: "real \<Rightarrow> real" where
  "round1 x = of_int (round_nearest (x * 10)) / 10"

section \<open>The analysis record\<close>

text \<open>
  The dict built by \<^verbatim>\<open>UnifiedDataProvider.get_comprehensive_data\<close>: nested dicts with
  fixed keys are records; \<^verbatim>\<open>returns\<close>, which the scoring reads with
  \<^verbatim>\<open>returns.get(period, 0)\<close>, stays a map from the period label.
\<close>

record macd_rec =
  line :: real
  signal :: real
  histogram :: real

record bollinger_rec =
  bb_upper :: real
  bb_middle :: real
  bb_lower :: real

record technical_rec =
  rsi :: real
  ma20 :: real
  ma50 :: real
  ma200 :: real
  macd :: macd_rec
  bollinger :: bollinger_rec
  avg_volume :: real

record risk_metrics_rec =
  volatility :: real
  max_drawdown :: real
  current_drawdown :: real
  sharpe_ratio :: real
  beta :: real

record fundamentals_rec =
  market_cap :: real
  pe_ratio :: real
  pb_ratio :: real
  ps_ratio :: real
  peg_ratio :: real
  roe :: real
  roa :: real
  debt_to_equity :: real
  current_ratio :: real
  profit_margin :: real
  operating_margin :: real
  revenue_growth :: real
  earnings_growth :: real
  dividend_yield :: real
  sector :: string

record analysis_data =
  symbol :: string
  current_price :: real
  returns :: "string \<rightharpoonup> real"
  risk_metrics :: risk_metrics_rec
  technical :: technical_rec
  fundamentals :: fundamentals_rec
  price_data :: "real list"

text \<open>The dict returned by \<^verbatim>\<open>calculate_ai_scores\<close>.\<close>

record ai_scores =
  sc_technical :: real
  sc_fundamental :: real
  sc_momentum :: real
  sc_value :: real
  sc_quality :: real
  sc_risk :: real
  sc_final :: real

section \<open>Scoring in UNIFICADO/unificado2.py\<close>

text \<open>
  Each \<^verbatim>\<open>if/elif\<close> block of the source adds a constant to \<^verbatim>\<open>score\<close> in the branch
  taken and leaves it alone otherwise; the model adds the selected increment.
\<close>

definition calculate_technical_score_v2 :: "analysis_data \<Rightarrow> real" where
  "calculate_technical_score_v2 data =
     (let score = 50;
          tech = technical data;
          price = current_price data;
          r = rsi tech;
          score = score + (if 30 \<le> r \<and> r \<le> 70 then 15
                           else if r < 30 then 25
                           else if r > 70 then - 10 else 0);
          score = score + (if price > ma20 tech then 8 else 0);
          score = score + (if price > ma50 tech then 12 else 0);
          score = score + (if price > ma200 tech then 15 else 0);
          m = macd tech;
          score = score + (if line m > signal m then 10 else 0);
          current_dd = \<bar>current_drawdown (risk_metrics data)\<bar>;
          score = score + (if current_dd > 30 then 20
                           else if current_dd > 20 then 15
                           else if current_dd > 10 then 10 else 0)
      in max 0 (min 100 score))"

definition calculate_fundamental_score_v2 :: "analysis_data \<Rightarrow> real" where
  "calculate_fundamental_score_v2 data =
     (let score = 50;
          fund = fundamentals data;
          pe = pe_ratio fund;
          score = score + (if 0 < pe \<and> pe < 8 then 30
                           else if 8 \<le> pe \<and> pe < 15 then 20
                           else if 15 \<le> pe \<and> pe < 25 then 10
                           else if pe > 40 then - 15 else 0);
          roe = roe fund;
          score = score + (if roe > 0.30 then 25
                           else if roe > 0.20 then 20
                           else if roe > 0.15 then 15
                           else if roe > 0.10 then 10
                           else if roe < 0 then - 25 else 0);
          debt = debt_to_equity fund;
          score = score + (if debt < 0.2 then 20
                           else if debt < 0.4 then 15
                           else if debt < 1.0 then 10
                           else if debt > 3.0 then - 25 else 0);
          growth = revenue_growth fund;
          score = score + (if growth > 0.20 then 20
                           else if growth > 0.10 then 15
                           else if growth > 0.05 then 10
                           else if growth < - 0.10 then - 20 else 0)
      in max 0 (min 100 score))"

definition momentum_weights :: "(string \<times> real) list" where
  "momentum_weights =
     [(''1w'', 0.1), (''1m'', 0.2), (''3m'', 0.3), (''6m'', 0.25), (''1y'', 0.15)]"

text \<open>One turn of the loop over \<^verbatim>\<open>weights.items()\<close>.\<close>

definition momentum_step_v2 :: "(string \<rightharpoonup> real) \<Rightarrow> real \<Rightarrow> string \<times> real \<Rightarrow> real" where
  "momentum_step_v2 rets score pw =
     (let ret = dict_get rets (fst pw) 0; weight = snd pw
      in if ret > 20 then score + 20 * weight
         else if ret > 10 then score + 15 * weight
         else if ret > 5 then score + 10 * weight
         else if ret < - 15 then score - 15 * weight
         else score)"

definition calculate_momentum_score_v2 :: "analysis_data \<Rightarrow> real" where
  "calculate_momentum_score_v2 data =
     (let score = foldl (momentum_step_v2 (returns data)) 50 momentum_weights
      in max 0 (min 100 score))"

definition calculate_value_score_v2 :: "analysis_data \<Rightarrow> real" where
  "calculate_value_score_v2 data =
     (let score = 50;
          fund = fundamentals data;
          pb = pb_ratio fund;
          score = score + (if 0 < pb \<and> pb < 1 then 25
                           else if 1 \<le> pb \<and> pb < 2 then 15
                           else if pb > 5 then - 15 else 0);
          div_yield = dividend_yield fund;
          score = score + (if div_yield > 0.05 then 15
                           else if div_yield > 0.03 then 10 else 0)
      in max 0 (min 100 score))"

definition calculate_quality_score_v2 :: "analysis_data \<Rightarrow> real" where
  "calculate_quality_score_v2 data =
     (let score = 50;
          fund = fundamentals data;
          roa = roa fund;
          score = score + (if roa > 0.15 then 25
                           else if roa > 0.10 then 20
                           else if roa > 0.05 then 10
                           else if roa < 0 then - 20 else 0);
          margin = profit_margin fund;
          score = score + (if margin > 0.20 then 20
                           else if margin > 0.10 then 10
                           else if margin < 0 then - 15 else 0)
      in max 0 (min 100 score))"

definition calculate_risk_score_v2 :: "analysis_data \<Rightarrow> real" where
  "calculate_risk_score_v2 data =
     (let risk = 0;
          vol = volatility (risk_metrics data);
          risk = risk + (if vol > 80 then 40
                         else if vol > 60 then 30
                         else if vol > 40 then 20
                         else if vol > 25 then 10 else 0);
          debt = debt_to_equity (fundamentals data);
          risk = risk + (if debt > 5 then 30
                         else if debt > 3 then 20
                         else if debt > 1 then 10 else 0);
          risk = risk + (if roe (fundamentals data) < 0 then 25 else 0)
      in min 100 risk)"

definition calculate_ai_scores_v2 :: "analysis_data \<Rightarrow> ai_scores" where
  "calculate_ai_scores_v2 data =
     (let technical_score = calculate_technical_score_v2 data;
          fundamental_score = calculate_fundamental_score_v2 data;
          momentum_score = calculate_momentum_score_v2 data;
          risk_score = calculate_risk_score_v2 data;
          value_score = calculate_value_score_v2 data;
          quality_score = calculate_quality_score_v2 data;
          final_score = technical_score * 0.20
                      + fundamental_score * 0.25
                      + momentum_score * 0.15
                      + value_score * 0.20
                      + quality_score * 0.15
                      - risk_score * 0.05
      in \<lparr> sc_technical = round1 technical_score,
           sc_fundamental = round1 fundamental_score,
           sc_momentum = round1 momentum_score,
           sc_value = round1 value_score,
           sc_quality = round1 quality_score,
           sc_risk = round1 risk_score,
           sc_final = round1 (max 0 (min 100 final_score)) \<rparr>)"

section \<open>Scoring in UNIFICADO/unificado.py\<close>

text \<open>
  The technical score of this file also reads the Bollinger bands and divides by their
  width: with Python floats a width of zero raises \<^verbatim>\<open>ZeroDivisionError\<close>, which
  leaves the function before the drawdown block and the clamp.
\<close>

definition calculate_technical_score :: "analysis_data \<Rightarrow> py_error + real" where
  "calculate_technical_score data =
     (let score = 50;
          tech = technical data;
          price = current_price data;
          r = rsi tech;
          score = score + (if 30 \<le> r \<and> r \<le> 70 then 15
                           else if r < 30 then 25
                           else if r > 70 then - 10 else 0);
          score = score + (if price > ma20 tech then 8 else 0);
          score = score + (if price > ma50 tech then 12 else 0);
          score = score + (if price > ma200 tech then 15 else 0);
          m = macd tech;
          score = score + (if line m > signal m then 10 else 0);
          score = score + (if histogram m > 0 then 5 else 0);
          bb = bollinger tech
      in if bb_upper bb - bb_lower bb = 0 then Inl ZeroDivisionError
         else
           (let bb_position = (price - bb_lower bb) / (bb_upper bb - bb_lower bb);
                score = score + (if bb_position < 0.2 then 15
                                 else if bb_position > 0.8 then - 10 else 0);
                current_dd = \<bar>current_drawdown (risk_metrics data)\<bar>;
                score = score + (if current_dd > 30 then 20
                                 else if current_dd > 20 then 15
                                 else if current_dd > 10 then 10 else 0)
            in Inr (max 0 (min 100 score))))"

definition calculate_fundamental_score :: "analysis_data \<Rightarrow> real" where
  "calculate_fundamental_score data =
     (let score = 50;
          fund = fundamentals data;
          pe = pe_ratio fund;
          score = score + (if 0 < pe \<and> pe < 8 then 30
                           else if 8 \<le> pe \<and> pe < 12 then 25
                           else if 12 \<le> pe \<and> pe < 15 then 20
                           else if 15 \<le> pe \<and> pe < 18 then 15
                           else if 18 \<le> pe \<and> pe < 22 then 10
                           else if 22 \<le> pe \<and> pe < 30 then 5
                           else if pe > 40 then - 15 else 0);
          roe = roe fund;
          score = score + (if roe > 0.30 then 25
                           else if roe > 0.25 then 20
                           else if roe > 0.20 then 15
                           else if roe > 0.15 then 10
                           else if roe > 0.10 then 5
                           else if roe < 0 then - 25 else 0);
          debt = debt_to_equity fund;
          score = score + (if debt < 0.2 then 20
                           else if debt < 0.4 then 15
                           else if debt < 0.6 then 10
                           else if debt < 1.0 then 5
                           else if debt > 3.0 then - 25 else 0);
          growth = revenue_growth fund;
          score = score + (if growth > 0.30 then 25
                           else if growth > 0.20 then 20
                           else if growth > 0.15 then 15
                           else if growth > 0.10 then 10
                           else if growth > 0.05 then 5
                           else if growth < - 0.10 then - 20 else 0);
          margin = profit_margin fund;
          score = score + (if margin > 0.25 then 20
                           else if margin > 0.20 then 15
                           else if margin > 0.15 then 10
                           else if margin > 0.10 then 5
                           else if margin < 0 then - 20 else 0)
      in max 0 (min 100 score))"

definition momentum_step :: "(string \<rightharpoonup> real) \<Rightarrow> real \<Rightarrow> string \<times> real \<Rightarrow> real" where
  "momentum_step rets score pw =
     (let ret = dict_get rets (fst pw) 0; weight = snd pw
      in if ret > 20 then score + 20 * weight
         else if ret > 15 then score + 15 * weight
         else if ret > 10 then score + 10 * weight
         else if ret > 5 then score + 5 * weight
         else if ret < - 15 then score - 15 * weight
         else if ret < - 10 then score - 10 * weight
         else score)"

definition calculate_momentum_score :: "analysis_data \<Rightarrow> real" where
  "calculate_momentum_score data =
     (let score = foldl (momentum_step (returns data)) 50 momentum_weights
      in max 0 (min 100 score))"

definition calculate_value_score :: "analysis_data \<Rightarrow> real" where
  "calculate_value_score data =
     (let score = 50;
          fund = fundamentals data;
          pb = pb_ratio fund;
          score = score + (if 0 < pb \<and> pb < 1 then 25
                           else if 1 \<le> pb \<and> pb < 1.5 then 20
                           else if 1.5 \<le> pb \<and> pb < 2 then 15
                           else if 2 \<le> pb \<and> pb < 3 then 10
                           else if pb > 5 then - 15 else 0);
          ps = ps_ratio fund;
          score = score + (if 0 < ps \<and> ps < 1 then 20
                           else if 1 \<le> ps \<and> ps < 2 then 15
                           else if 2 \<le> ps \<and> ps < 3 then 10
                           else if ps > 10 then - 15 else 0);
          peg = peg_ratio fund;
          score = score + (if 0 < peg \<and> peg < 0.5 then 25
                           else if 0.5 \<le> peg \<and> peg < 1 then 20
                           else if 1 \<le> peg \<and> peg < 1.5 then 10
                           else if peg > 2 then - 10 else 0);
          div_yield = dividend_yield fund;
          score = score + (if div_yield > 0.05 then 15
                           else if div_yield > 0.03 then 10
                           else if div_yield > 0.02 then 5 else 0)
      in max 0 (min 100 score))"

definition calculate_quality_score :: "analysis_data \<Rightarrow> real" where
  "calculate_quality_score data =
     (let score = 50;
          fund = fundamentals data;
          roa = roa fund;
          score = score + (if roa > 0.15 then 25
                           else if roa > 0.10 then 20
                           else if roa > 0.08 then 15
                           else if roa > 0.05 then 10
                           else if roa < 0 then - 20 else 0);
          cr = current_ratio fund;
          score = score + (if 1.5 \<le> cr \<and> cr \<le> 3 then 15
                           else if 1.2 \<le> cr \<and> cr < 1.5 then 10
                           else if cr < 1 then - 15 else 0);
          op_margin = operating_margin fund;
          score = score + (if op_margin > 0.20 then 20
                           else if op_margin > 0.15 then 15
                           else if op_margin > 0.10 then 10
                           else if op_margin < 0 then - 15 else 0);
          eg = earnings_growth fund;
          score = score + (if eg > 0.25 then 15
                           else if eg > 0.15 then 10
                           else if eg > 0.10 then 5
                           else if eg < - 0.15 then - 15 else 0)
      in max 0 (min 100 score))"

definition calculate_risk_score :: "analysis_data \<Rightarrow> real" where
  "calculate_risk_score data =
     (let risk = 0;
          vol = volatility (risk_metrics data);
          risk = risk + (if vol > 80 then 40
                         else if vol > 60 then 30
                         else if vol > 40 then 20
                         else if vol > 25 then 10 else 0);
          b = beta (risk_metrics data);
          risk = risk + (if b > 2 then 20
                         else if b > 1.5 then 15
                         else if b > 1.2 then 10 else 0);
          debt = debt_to_equity (fundamentals data);
          risk = risk + (if debt > 5 then 30
                         else if debt > 3 then 20
                         else if debt > 2 then 15
                         else if debt > 1 then 10 else 0);
          risk = risk + (if roe (fundamentals data) < 0 then 25 else 0);
          risk = risk + (if profit_margin (fundamentals data) < 0 then 20 else 0);
          max_dd = \<bar>max_drawdown (risk_metrics data)\<bar>;
          risk = risk + (if max_dd > 80 then 25
                         else if max_dd > 60 then 20
                         else if max_dd > 40 then 15 else 0)
      in min 100 risk)"

definition calculate_ai_scores :: "analysis_data \<Rightarrow> py_error + ai_scores" where
  "calculate_ai_scores data =
     (case calculate_technical_score data of
        Inl e \<Rightarrow> Inl e
      | Inr technical_score \<Rightarrow>
         (let fundamental_score = calculate_fundamental_score data;
              momentum_score = calculate_momentum_score data;
              risk_score = calculate_risk_score data;
              value_score = calculate_value_score data;
              quality_score = calculate_quality_score data;
              final_score = technical_score * 0.20
                          + fundamental_score * 0.25
                          + momentum_score * 0.15
                          + value_score * 0.20
                          + quality_score * 0.15
                          - risk_score * 0.05
          in Inr \<lparr> sc_technical = round1 technical_score,
                   sc_fundamental = round1 fundamental_score,
                   sc_momentum = round1 momentum_score,
                   sc_value = round1 value_score,
                   sc_quality = round1 quality_score,
                   sc_risk = round1 risk_score,
                   sc_final = round1 (max 0 (min 100 final_score)) \<rparr>))"

section \<open>Recommendation\<close>

datatype action =
  COMPRA_FORTE | COMPRAR | COMPRA_MODERADA | AGUARDAR_MELHOR_ENTRADA | AGUARDAR
  | EVITAR | VENDER_EVITAR

datatype confidence = Muito_Alta | Alta | Boa | Moderada | Baixa

datatype emoji = Rocket | Check_Mark | Green_Circle | Yellow_Circle | Warning_Sign | Cross_Mark

datatype horizon = Longo_prazo | Medio_prazo | Curto_medio_prazo

datatype risk_level = Muito_Alto | Alto | Medio | Baixo

record recommendation =
  rec_action :: action
  rec_confidence :: confidence
  rec_emoji :: emoji
  rec_score :: real
  rec_horizon :: horizon
  rec_risk_level :: risk_level

text \<open>\<^verbatim>\<open>AdvancedAnalyzer.generate_recommendation\<close> of unificado.py.\<close>

definition generate_recommendation :: "ai_scores \<Rightarrow> analysis_data \<Rightarrow> recommendation" where
  "generate_recommendation ai_analysis data =
     (let final_score = sc_final ai_analysis;
          risk_score = sc_risk ai_analysis;
          risk_adjusted_score = final_score - risk_score * 0.15;
          (act, conf, emo) =
            (if risk_adjusted_score \<ge> 85 then (COMPRA_FORTE, Muito_Alta, Rocket)
             else if risk_adjusted_score \<ge> 75 then (COMPRAR, Alta, Check_Mark)
             else if risk_adjusted_score \<ge> 65 then (COMPRA_MODERADA, Boa, Green_Circle)
             else if risk_adjusted_score \<ge> 55 then (AGUARDAR_MELHOR_ENTRADA, Moderada, Yellow_Circle)
             else if risk_adjusted_score \<ge> 40 then (EVITAR, Baixa, Warning_Sign)
             else (VENDER_EVITAR, Alta, Cross_Mark));
          vol = volatility (risk_metrics data);
          hor = (if vol > 60 then Longo_prazo
                 else if vol > 35 then Medio_prazo
                 else Curto_medio_prazo);
          lvl = (if risk_score > 70 then Muito_Alto
                 else if risk_score > 50 then Alto
                 else if risk_score > 30 then Medio
                 else Baixo)
      in \<lparr> rec_action = act, rec_confidence = conf, rec_emoji = emo,
           rec_score = round1 risk_adjusted_score, rec_horizon = hor,
           rec_risk_level = lvl \<rparr>)"

text \<open>
  The ladder in \<^verbatim>\<open>main\<close> of unificado2.py, applied to \<^verbatim>\<open>ai_scores["final"]\<close> itself.
\<close>

definition main_recommendation_v2 :: "real \<Rightarrow> action \<times> emoji" where
  "main_recommendation_v2 final_score =
     (if final_score \<ge> 80 then (COMPRA_FORTE, Rocket)
      else if final_score \<ge> 70 then (COMPRAR, Check_Mark)
      else if final_score \<ge> 60 then (COMPRA_MODERADA, Green_Circle)
      else if final_score \<ge> 50 then (AGUARDAR, Yellow_Circle)
      else (EVITAR, Warning_Sign))"

section \<open>Indicators\<close>

subsection \<open>RSI\<close>

text \<open>\<^verbatim>\<open>np.diff\<close>: the differences of neighbouring entries.\<close>

definition np_diff :: "real list \<Rightarrow> real list" where
  "np_diff xs = map (\<lambda>(a, b). b - a) (zip xs (tl xs))"

text \<open>
  The slice \<^verbatim>\<open>xs[start:]\<close>: a negative start counts from the end, and a start outside
  the list is cut to its ends.
\<close>

definition slice_from :: "'a list \<Rightarrow> int \<Rightarrow> 'a list" where
  "slice_from xs start =
     (let n = int (length xs);
          s = (if start < 0 then max 0 (n + start) else min n start)
      in drop (nat s) xs)"

text \<open>\<^verbatim>\<open>np.mean\<close>: the mean of an empty array is \<open>nan\<close> (a warning, not an exception).\<close>

definition np_mean :: "real list \<Rightarrow> npfloat" where
  "np_mean xs = (if xs = [] then NaN else Finite (sum_list xs / real (length xs)))"

definition avg_gain :: "real list \<Rightarrow> int \<Rightarrow> npfloat" where
  "avg_gain prices period =
     (let deltas = np_diff prices;
          gains = map (\<lambda>d. if d > 0 then d else 0) deltas
      in np_mean (slice_from gains (- period)))"

definition avg_loss :: "real list \<Rightarrow> int \<Rightarrow> npfloat" where
  "avg_loss prices period =
     (let deltas = np_diff prices;
          losses = map (\<lambda>d. if d < 0 then - d else 0) deltas
      in np_mean (slice_from losses (- period)))"

text \<open>
  \<^verbatim>\<open>UnifiedDataProvider._calculate_rsi\<close> (unificado.py, unificado2.py) and
  \<^verbatim>\<open>Analyzer._calc_rsi\<close> (globalscanner.py) have the same body; the former wrap it in
  \<^verbatim>\<open>try/except\<close>, which nothing in it reaches. A \<open>nan\<close> compares unequal to 0 and
  makes the quotient \<open>nan\<close>.
\<close>

definition calculate_rsi :: "real list \<Rightarrow> int \<Rightarrow> npfloat" where
  "calculate_rsi prices period =
     (if int (length prices) < period + 1 then Finite 50
      else
        (case avg_loss prices period of
           NaN \<Rightarrow> NaN
         | Finite l \<Rightarrow>
            if l = 0 then Finite 100
            else
              (case avg_gain prices period of
                 NaN \<Rightarrow> NaN
               | Finite g \<Rightarrow> (let rs = g / l in Finite (100 - 100 / (1 + rs))))))"

definition calc_rsi :: "real list \<Rightarrow> int \<Rightarrow> npfloat" where
  "calc_rsi prices period =
     (if int (length prices) < period + 1 then Finite 50
      else
        (case avg_loss prices period of
           NaN \<Rightarrow> NaN
         | Finite l \<Rightarrow>
            if l = 0 then Finite 100
            else
              (case avg_gain prices period of
                 NaN \<Rightarrow> NaN
               | Finite g \<Rightarrow> (let rs = g / l in Finite (100 - 100 / (1 + rs))))))"

subsection \<open>MACD\<close>

text \<open>
  \<^verbatim>\<open>Series.ewm(span=s).mean()\<close> of pandas, with its default \<^verbatim>\<open>adjust=True\<close>: entry
  \<open>t\<close> is the mean of the entries up to \<open>t\<close> weighted by the powers of
  \<open>1 - \<alpha>\<close>, \<open>\<alpha> = 2 / (s + 1)\<close>; a span below 1 raises \<^verbatim>\<open>ValueError\<close>.
  \<open>ewm_from\<close> carries the weighted sum and the sum of the weights.
\<close>

fun ewm_from :: "real \<Rightarrow> real \<Rightarrow> real \<Rightarrow> real list \<Rightarrow> real list" where
  "ewm_from w num den [] = []"
| "ewm_from w num den (x # xs) =
     (let num' = x + w * num; den' = 1 + w * den
      in (num' / den') # ewm_from w num' den' xs)"

definition ewm_mean :: "int \<Rightarrow> real list \<Rightarrow> py_error + real list" where
  "ewm_mean sp xs =
     (if sp < 1 then Inl ValueError
      else Inr (ewm_from (1 - 2 / (real_of_int sp + 1)) 0 0 xs))"

text \<open>\<^verbatim>\<open>s.iloc[-1]\<close>: the last entry; an empty series raises \<^verbatim>\<open>IndexError\<close>.\<close>

definition iloc_last :: "real list \<Rightarrow> py_error + real" where
  "iloc_last xs = (if xs = [] then Inl IndexError else Inr (last xs))"

text \<open>
  The body of the \<^verbatim>\<open>try\<close> of \<^verbatim>\<open>UnifiedDataProvider._calculate_macd\<close>
  (unificado.py, unificado2.py), after its guard \<^verbatim>\<open>len(prices) < slow\<close>.
\<close>

definition macd_body :: "real list \<Rightarrow> int \<Rightarrow> int \<Rightarrow> int \<Rightarrow> py_error + (real \<times> real \<times> real)" where
  "macd_body prices fast slow sig =
     and_then (ewm_mean fast prices) (\<lambda>exp1.
     and_then (ewm_mean slow prices) (\<lambda>exp2.
       (let macd_line = map (\<lambda>(a, b). a - b) (zip exp1 exp2)
        in and_then (ewm_mean sig macd_line) (\<lambda>macd_signal.
             (let macd_histogram = map (\<lambda>(a, b). a - b) (zip macd_line macd_signal)
              in and_then (iloc_last macd_line) (\<lambda>l.
                 and_then (iloc_last macd_signal) (\<lambda>s.
                 and_then (iloc_last macd_histogram) (\<lambda>h.
                   Inr (l, s, h)))))))))"

definition calculate_macd_v2 :: "real list \<Rightarrow> int \<Rightarrow> int \<Rightarrow> int \<Rightarrow> real \<times> real \<times> real" where
  "calculate_macd_v2 prices fast slow sig =
     (if int (length prices) < slow then (0, 0, 0)
      else (case macd_body prices fast slow sig of
              Inl e \<Rightarrow> (0, 0, 0)
            | Inr r \<Rightarrow> r))"

text \<open>\<^verbatim>\<open>TechnicalIndicators.calculate_macd\<close> of config.py guards with \<^verbatim>\<open>slow + signal\<close>.\<close>

definition calculate_macd :: "real list \<Rightarrow> int \<Rightarrow> int \<Rightarrow> int \<Rightarrow> real \<times> real \<times> real" where
  "calculate_macd prices fast slow sig =
     (if int (length prices) < slow + sig then (0, 0, 0)
      else (case macd_body prices fast slow sig of
              Inl e \<Rightarrow> (0, 0, 0)
            | Inr r \<Rightarrow> r))"

section \<open>The scanner of unificado.py\<close>

record scan_result =
  res_symbol :: string
  res_price :: real
  res_score :: real
  res_technical_score :: real
  res_fundamental_score :: real
  res_risk_score :: real
  res_drawdown :: real
  res_upside_potential :: real
  res_returns_1y :: real
  res_returns_3m :: real
  res_returns_1m :: real
  res_pe_ratio :: real
  res_market_cap :: real
  res_sector :: string
  res_volatility :: real
  res_rsi :: real






definition passes_filters :: "scan_result \<Rightarrow> (string \<rightharpoonup> real) \<Rightarrow> bool" where
  "passes_filters result filters =
     (if res_score result < dict_get filters ''min_score'' 0 then False
      else if \<bar>res_drawdown result\<bar> < dict_get filters ''min_drawdown'' 0 then False
      else
        (let max_pe = dict_get filters ''max_pe'' 999
         in if res_pe_ratio result > max_pe \<and> res_pe_ratio result > 0 then False
            else if res_volatility result > dict_get filters ''max_volatility'' 999 then False
            else if res_market_cap result < dict_get filters ''min_market_cap'' 0 then False
            else True))"

definition apply_filters :: "scan_result list \<Rightarrow> (string \<rightharpoonup> real) \<Rightarrow> scan_result list" where
  "apply_filters results filters = filter (\<lambda>result. passes_filters result filters) results"




section \<open>The scanner of GLOBAL/globalscanner.py\<close>

record opportunity =
  opp_symbol :: string
  opp_price :: real
  opp_drawdown :: real
  opp_upside :: real
  opp_returns_1m :: real
  opp_returns_3m :: real
  opp_returns_1y :: real
  opp_rsi :: real
  opp_volatility :: real
  opp_pe_ratio :: real
  opp_market_cap :: real
  opp_sector :: string
  opp_score :: real



text \<open>The filter in \<^verbatim>\<open>main\<close> of globalscanner.py.\<close>

definition main_filter_gs :: "opportunity list \<Rightarrow> real \<Rightarrow> real \<Rightarrow> real \<Rightarrow> opportunity list" where
  "main_filter_gs opportunities min_score min_drawdown max_pe =
     filter (\<lambda>opp. opp_score opp \<ge> min_score
                 \<and> \<bar>opp_drawdown opp\<bar> \<ge> min_drawdown
                 \<and> (opp_pe_ratio opp \<le> max_pe \<or> opp_pe_ratio opp = 0)) opportunities"

section \<open>Concrete inputs\<close>

text \<open>Sixteen closes: one fall at the start, none over the last fourteen steps.\<close>

definition rising_prices :: "real list" where
  "rising_prices = [9, 8, 10, 10, 11, 12, 13, 14, 15, 16, 17, 18, 19, 20, 21, 22]"

definition example_result :: scan_result where
  "example_result =
     \<lparr> res_symbol = ''AAA'', res_price = 10, res_score = 70, res_technical_score = 65,
       res_fundamental_score = 70, res_risk_score = 10, res_drawdown = - 20,
       res_upside_potential = 25, res_returns_1y = 5, res_returns_3m = 2,
       res_returns_1m = 1, res_pe_ratio = 0, res_market_cap = 1000000,
       res_sector = ''N/A'', res_volatility = 30, res_rsi = 50 \<rparr>"

definition example_opportunity :: opportunity where
  "example_opportunity =
     \<lparr> opp_symbol = ''AAA'', opp_price = 10, opp_drawdown = - 20, opp_upside = 25,
       opp_returns_1m = 1, opp_returns_3m = 2, opp_returns_1y = 5, opp_rsi = 50,
       opp_volatility = 30, opp_pe_ratio = 0, opp_market_cap = 1000000,
       opp_sector = ''N/A'', opp_score = 70 \<rparr>"

text \<open>Twenty-six closes, fewer than 26 + 9: flat at 1, then one step up to 2.\<close>

definition flat_then_up :: "real list" where
  "flat_then_up = replicate 25 1 @ [2]"

text \<open>An analysis record with ordinary values.\<close>

definition sample_data :: analysis_data where
  "sample_data =
     \<lparr> symbol = ''AAA'',
       current_price = 10,
       returns = [''1d'' \<mapsto> 0, ''1w'' \<mapsto> 12, ''2w'' \<mapsto> 0, ''1m'' \<mapsto> 0, ''2m'' \<mapsto> 0,
                  ''3m'' \<mapsto> 0, ''6m'' \<mapsto> 0, ''9m'' \<mapsto> 0, ''1y'' \<mapsto> 0, ''2y'' \<mapsto> 0],
       risk_metrics = \<lparr> volatility = 30, max_drawdown = - 20, current_drawdown = - 5,
                        sharpe_ratio = 0, beta = 1 \<rparr>,
       technical = \<lparr> rsi = 50, ma20 = 9, ma50 = 11, ma200 = 12,
                     macd = \<lparr> line = 0, signal = 0, histogram = 0 \<rparr>,
                     bollinger = \<lparr> bb_upper = 11, bb_middle = 10, bb_lower = 9 \<rparr>,
                     avg_volume = 0 \<rparr>,
       fundamentals = \<lparr> market_cap = 1000000, pe_ratio = 10, pb_ratio = 1.5, ps_ratio = 0,
                        peg_ratio = 0, roe = 0.05, roa = 0.06, debt_to_equity = 1.5,
                        current_ratio = 1.1, profit_margin = 0.05, operating_margin = 0.05,
                        revenue_growth = 0, earnings_growth = 0, dividend_yield = 0,
                        sector = ''N/A'' \<rparr>,
       price_data = [8, 12, 10] \<rparr>"

text \<open>Scores with a final score of 80 and no risk.\<close>

definition final_80_no_risk :: ai_scores where
  "final_80_no_risk =
     \<lparr> sc_technical = 80, sc_fundamental = 80, sc_momentum = 70, sc_value = 90,
       sc_quality = 80, sc_risk = 0, sc_final = 80 \<rparr>"

section \<open>Vocabulary of the statements\<close>

text \<open>A score within the bounds the specification gives every score.\<close>

definition in_range :: "real \<Rightarrow> bool" where
  "in_range x = (0 \<le> x \<and> x \<le> 100)"

definition scores_in_range :: "ai_scores \<Rightarrow> bool" where
  "scores_in_range s =
     (in_range (sc_technical s) \<and> in_range (sc_fundamental s) \<and> in_range (sc_momentum s)
      \<and> in_range (sc_value s) \<and> in_range (sc_quality s) \<and> in_range (sc_risk s)
      \<and> in_range (sc_final s))"

text \<open>
  The composite as the specification words it: the weighted sum of five sub-scores less
  the risk penalty, clamped to [0, 100].
\<close>

definition weighted_final :: "real \<Rightarrow> real \<Rightarrow> real \<Rightarrow> real \<Rightarrow> real \<Rightarrow> real \<Rightarrow> real" where
  "weighted_final t f m v q r =
     max 0 (min 100 (t * 0.20 + f * 0.25 + m * 0.15 + v * 0.20 + q * 0.15 - r * 0.05))"

text \<open>
  The record of a symbol whose last twenty closes are all 10: the moving averages and,
  the standard deviation being 0, both Bollinger bands equal the price.
\<close>

definition flat_band_data :: analysis_data where
  "flat_band_data =
     sample_data \<lparr> technical :=
       (technical sample_data) \<lparr> ma20 := 10, ma50 := 10, ma200 := 10,
          bollinger := \<lparr> bb_upper = 10, bb_middle = 10, bb_lower = 10 \<rparr> \<rparr>,
       price_data := replicate 20 10 \<rparr>"

section \<open>The ranking of GLOBAL/globalscanner.py\<close>



section \<open>Vocabulary of the scan statements\<close>



section \<open>Concrete scans\<close>







section \<open>Properties of the sub-scores\<close>

lemma clamp_bounds: "0 \<le> max 0 (min 100 (x::real)) \<and> max 0 (min 100 x) \<le> 100"
  by simp

lemma momentum_weights_sum: "sum_list (map snd momentum_weights) = 1"
  by (simp add: momentum_weights_def)

lemma momentum_step_v2_bounds:
  assumes "0 \<le> w"
  shows "score - 15 * w \<le> momentum_step_v2 rets score (p, w)
       \<and> momentum_step_v2 rets score (p, w) \<le> score + 20 * w"
  using assms by (simp add: momentum_step_v2_def Let_def)

lemma momentum_step_bounds:
  assumes "0 \<le> w"
  shows "score - 15 * w \<le> momentum_step rets score (p, w)
       \<and> momentum_step rets score (p, w) \<le> score + 20 * w"
  using assms by (simp add: momentum_step_def Let_def)

text \<open>
  A loop over the five weights whose every turn moves the score by at least
  \<open>- 15 * weight\<close> and at most \<open>20 * weight\<close> ends between 35 and 70.
\<close>

lemma momentum_fold_bounds:
  assumes step: "\<And>score p w. 0 \<le> w \<Longrightarrow>
            score - 15 * w \<le> f score (p, w) \<and> f score (p, w) \<le> score + 20 * (w::real)"
  shows "35 \<le> foldl f (50::real) momentum_weights \<and> foldl f 50 momentum_weights \<le> 70"
proof -
  define s1 where "s1 = f 50 (''1w'', 0.1)"
  define s2 where "s2 = f s1 (''1m'', 0.2)"
  define s3 where "s3 = f s2 (''3m'', 0.3)"
  define s4 where "s4 = f s3 (''6m'', 0.25)"
  define s5 where "s5 = f s4 (''1y'', 0.15)"
  have f: "foldl f 50 momentum_weights = s5"
    by (simp add: momentum_weights_def s1_def s2_def s3_def s4_def s5_def)
  have b1: "50 - 15 * 0.1 \<le> s1 \<and> s1 \<le> 50 + 20 * 0.1"
    unfolding s1_def by (rule step) simp
  have b2: "s1 - 15 * 0.2 \<le> s2 \<and> s2 \<le> s1 + 20 * 0.2"
    unfolding s2_def by (rule step) simp
  have b3: "s2 - 15 * 0.3 \<le> s3 \<and> s3 \<le> s2 + 20 * 0.3"
    unfolding s3_def by (rule step) simp
  have b4: "s3 - 15 * 0.25 \<le> s4 \<and> s4 \<le> s3 + 20 * 0.25"
    unfolding s4_def by (rule step) simp
  have b5: "s4 - 15 * 0.15 \<le> s5 \<and> s5 \<le> s4 + 20 * 0.15"
    unfolding s5_def by (rule step) simp
  from b1 b2 b3 b4 b5 have "35 \<le> s5 \<and> s5 \<le> 70" by simp
  with f show ?thesis by simp
qed

lemma momentum_fold_v2_range:
  "35 \<le> foldl (momentum_step_v2 rets) 50 momentum_weights
   \<and> foldl (momentum_step_v2 rets) 50 momentum_weights \<le> 70"
  by (rule momentum_fold_bounds) (rule momentum_step_v2_bounds)

lemma momentum_fold_range:
  "35 \<le> foldl (momentum_step rets) 50 momentum_weights
   \<and> foldl (momentum_step rets) 50 momentum_weights \<le> 70"
  by (rule momentum_fold_bounds) (rule momentum_step_bounds)

text \<open>
  Claim C10. For every returns record the momentum sub-score lies in [35, 70], in
  unificado2.py and in unificado.py: the five weights sum to 1, every horizon adds at
  most 20 times its weight and takes at most 15 times its weight from the base of 50, so
  the clamp to [0, 100] returns the loop's value unchanged and the sub-score is never 0
  or 100.
\<close>

theorem momentum_score_between_35_and_70:
  "35 \<le> calculate_momentum_score_v2 data \<and> calculate_momentum_score_v2 data \<le> 70
   \<and> calculate_momentum_score_v2 data
       = foldl (momentum_step_v2 (returns data)) 50 momentum_weights
   \<and> 35 \<le> calculate_momentum_score data \<and> calculate_momentum_score data \<le> 70
   \<and> calculate_momentum_score data
       = foldl (momentum_step (returns data)) 50 momentum_weights
   \<and> sum_list (map snd momentum_weights) = 1"
proof -
  note v2 = momentum_fold_v2_range [of "returns data"]
  note v1 = momentum_fold_range [of "returns data"]
  from v2 have e2: "calculate_momentum_score_v2 data
       = foldl (momentum_step_v2 (returns data)) 50 momentum_weights"
    by (simp add: calculate_momentum_score_v2_def Let_def)
  from v1 have e1: "calculate_momentum_score data
       = foldl (momentum_step (returns data)) 50 momentum_weights"
    by (simp add: calculate_momentum_score_def Let_def)
  from v1 v2 e1 e2 momentum_weights_sum show ?thesis by simp
qed

section \<open>Properties of the indicators\<close>

lemma length_np_diff: "length (np_diff xs) = length xs - 1"
  by (simp add: np_diff_def)

lemma slice_from_map: "slice_from (map f xs) k = map f (slice_from xs k)"
  by (simp add: slice_from_def Let_def drop_map)

lemma length_slice_from_tail:
  assumes "1 \<le> period" and "period \<le> int (length xs)"
  shows "length (slice_from xs (- period)) = nat period"
  using assms by (simp add: slice_from_def Let_def)

lemma sum_list_all_zero: "(\<forall>x \<in> set xs. x = (0::real)) \<Longrightarrow> sum_list xs = 0"
  by (induction xs) auto

text \<open>
  Claim C6. For every price series with fewer than \<open>period + 1\<close> points (14 + 1 by
  default) the RSI function returns the neutral value 50; the model has no other outcome
  there, so nothing is raised. It holds for \<^verbatim>\<open>_calculate_rsi\<close> and for
  \<^verbatim>\<open>_calc_rsi\<close>.
\<close>

theorem rsi_short_series_is_50:
  assumes "int (length prices) < period + 1"
  shows "calculate_rsi prices period = Finite 50 \<and> calc_rsi prices period = Finite 50"
  using assms by (simp add: calculate_rsi_def calc_rsi_def)

theorem rsi_short_series_is_50_witness:
  "int (length [10, 11, 12 :: real]) < 14 + 1
   \<and> calculate_rsi [10, 11, 12] 14 = Finite 50 \<and> calc_rsi [10, 11, 12] 14 = Finite 50"
  using rsi_short_series_is_50 [of "[10, 11, 12]" 14] by simp

lemma rsi_zero_avg_loss:
  assumes "period + 1 \<le> int (length prices)" and "avg_loss prices period = Finite 0"
  shows "calculate_rsi prices period = Finite 100 \<and> calc_rsi prices period = Finite 100"
  using assms by (simp add: calculate_rsi_def calc_rsi_def)

lemma avg_loss_no_drop:
  assumes len: "period + 1 \<le> int (length prices)" and pos: "1 \<le> period"
    and up: "\<forall>d \<in> set (slice_from (np_diff prices) (- period)). 0 \<le> d"
  shows "avg_loss prices period = Finite 0"
proof -
  let ?tail = "slice_from (np_diff prices) (- period)"
  let ?losses = "map (\<lambda>d. if d < 0 then - d else 0) ?tail"
  from len pos have "period \<le> int (length (np_diff prices))"
    by (simp add: length_np_diff)
  with pos have "length ?tail = nat period"
    by (rule length_slice_from_tail)
  with pos have ne: "?losses \<noteq> []" by auto
  from up have "\<forall>x \<in> set ?losses. x = 0" by auto
  then have "sum_list ?losses = 0" by (rule sum_list_all_zero)
  with ne have "np_mean ?losses = Finite 0" by (simp add: np_mean_def)
  then show ?thesis by (simp add: avg_loss_def Let_def slice_from_map)
qed

text \<open>
  Claim C9. For every price series of at least \<open>period + 1\<close> points with no negative
  price change over the last \<open>period\<close> steps, the trailing average loss is zero and
  the RSI function returns exactly 100.
\<close>

theorem rsi_without_losses_is_100:
  assumes "period + 1 \<le> int (length prices)" and "1 \<le> period"
    and "\<forall>d \<in> set (slice_from (np_diff prices) (- period)). 0 \<le> d"
  shows "avg_loss prices period = Finite 0
       \<and> calculate_rsi prices period = Finite 100 \<and> calc_rsi prices period = Finite 100"
proof -
  from assms have "avg_loss prices period = Finite 0" by (rule avg_loss_no_drop)
  with assms(1) rsi_zero_avg_loss show ?thesis by blast
qed

theorem rsi_without_losses_is_100_witness:
  "14 + 1 \<le> int (length rising_prices) \<and> (1::int) \<le> 14
   \<and> slice_from (np_diff rising_prices) (- 14) = [2, 0, 1, 1, 1, 1, 1, 1, 1, 1, 1, 1, 1, 1]
   \<and> avg_loss rising_prices 14 = Finite 0
   \<and> calculate_rsi rising_prices 14 = Finite 100"
proof -
  have h1: "14 + 1 \<le> int (length rising_prices)" by (simp add: rising_prices_def)
  have h2: "(1::int) \<le> 14" by simp
  have h3: "\<forall>d \<in> set (slice_from (np_diff rising_prices) (- 14)). 0 \<le> d"
    by (simp add: rising_prices_def np_diff_def slice_from_def Let_def)
  have h4: "slice_from (np_diff rising_prices) (- 14) = [2, 0, 1, 1, 1, 1, 1, 1, 1, 1, 1, 1, 1, 1]"
    by (simp add: rising_prices_def np_diff_def slice_from_def Let_def)
  from rsi_without_losses_is_100 [OF h1 h2 h3] h1 h2 h4 show ?thesis by blast
qed

section \<open>Properties of the filters\<close>

text \<open>
  Claim C8. A scan result whose P/E ratio is 0 is kept or dropped by the other filters
  alone: the maximum-P/E bound is skipped for it. A result whose P/E ratio is above 0 and
  above the bound is dropped. Both hold for \<^verbatim>\<open>_apply_filters\<close> of unificado.py and for
  the filter in \<^verbatim>\<open>main\<close> of globalscanner.py.
\<close>

theorem zero_pe_not_excluded_by_max_pe:
  "(res_pe_ratio r = 0 \<longrightarrow>
      (r \<in> set (apply_filters results filters) \<longleftrightarrow>
         r \<in> set results
         \<and> \<not> res_score r < dict_get filters ''min_score'' 0
         \<and> \<not> \<bar>res_drawdown r\<bar> < dict_get filters ''min_drawdown'' 0
         \<and> \<not> res_volatility r > dict_get filters ''max_volatility'' 999
         \<and> \<not> res_market_cap r < dict_get filters ''min_market_cap'' 0))
   \<and> (res_pe_ratio r > 0 \<and> res_pe_ratio r > dict_get filters ''max_pe'' 999 \<longrightarrow>
         r \<notin> set (apply_filters results filters))
   \<and> (opp_pe_ratio opp = 0 \<longrightarrow>
      (opp \<in> set (main_filter_gs opportunities min_score min_drawdown max_pe) \<longleftrightarrow>
         opp \<in> set opportunities \<and> opp_score opp \<ge> min_score
         \<and> \<bar>opp_drawdown opp\<bar> \<ge> min_drawdown))
   \<and> (opp_pe_ratio opp > 0 \<and> opp_pe_ratio opp > max_pe \<longrightarrow>
         opp \<notin> set (main_filter_gs opportunities min_score min_drawdown max_pe))"
  by (auto simp add: apply_filters_def passes_filters_def main_filter_gs_def Let_def)

theorem zero_pe_not_excluded_by_max_pe_witness:
  "res_pe_ratio example_result = 0
   \<and> example_result \<in> set (apply_filters [example_result] [''max_pe'' \<mapsto> 5])
   \<and> res_pe_ratio (example_result\<lparr>res_pe_ratio := 20\<rparr>) > 0
   \<and> res_pe_ratio (example_result\<lparr>res_pe_ratio := 20\<rparr>) > dict_get [''max_pe'' \<mapsto> 5] ''max_pe'' 999
   \<and> example_result\<lparr>res_pe_ratio := 20\<rparr>
        \<notin> set (apply_filters [example_result\<lparr>res_pe_ratio := 20\<rparr>] [''max_pe'' \<mapsto> 5])
   \<and> opp_pe_ratio example_opportunity = 0
   \<and> example_opportunity \<in> set (main_filter_gs [example_opportunity] 60 15 5)
   \<and> opp_pe_ratio (example_opportunity\<lparr>opp_pe_ratio := 20\<rparr>) > 0
   \<and> opp_pe_ratio (example_opportunity\<lparr>opp_pe_ratio := 20\<rparr>) > 5
   \<and> example_opportunity\<lparr>opp_pe_ratio := 20\<rparr>
        \<notin> set (main_filter_gs [example_opportunity\<lparr>opp_pe_ratio := 20\<rparr>] 60 15 5)"
  using zero_pe_not_excluded_by_max_pe
          [of example_result "[example_result]" "[''max_pe'' \<mapsto> 5]"
              example_opportunity "[example_opportunity]" 60 15 5]
        zero_pe_not_excluded_by_max_pe
          [of "example_result\<lparr>res_pe_ratio := 20\<rparr>" "[example_result\<lparr>res_pe_ratio := 20\<rparr>]"
              "[''max_pe'' \<mapsto> 5]"
              "example_opportunity\<lparr>opp_pe_ratio := 20\<rparr>"
              "[example_opportunity\<lparr>opp_pe_ratio := 20\<rparr>]" 60 15 5]
  by (simp add: example_result_def example_opportunity_def dict_get_def)

section \<open>Properties of the MACD\<close>

lemma length_ewm_from: "length (ewm_from w n d xs) = length xs"
  by (induction xs arbitrary: n d) (simp_all add: Let_def)

lemma last_zip_diff:
  assumes "length xs = length ys" and "xs \<noteq> []"
  shows "last (map (\<lambda>(a, b). a - b) (zip xs ys)) = last xs - last (ys::real list)"
  using assms
proof (induction xs ys rule: list_induct2)
  case Nil then show ?case by simp
next
  case (Cons x xs y ys)
  then show ?case by (cases xs; cases ys) auto
qed

lemma ewm_from_Nil_iff: "ewm_from w n d xs = [] \<longleftrightarrow> xs = []"
  using length_ewm_from [of w n d xs] by auto

lemma macd_body_value:
  assumes ne: "prices \<noteq> []" and "1 \<le> fast" and "1 \<le> slow" and "1 \<le> sig"
  shows "\<exists>s h. macd_body prices fast slow sig
       = Inr (last (ewm_from (1 - 2 / (real_of_int fast + 1)) 0 0 prices)
            - last (ewm_from (1 - 2 / (real_of_int slow + 1)) 0 0 prices), s, h)"
proof -
  let ?e1 = "ewm_from (1 - 2 / (real_of_int fast + 1)) 0 0 prices"
  let ?e2 = "ewm_from (1 - 2 / (real_of_int slow + 1)) 0 0 prices"
  let ?ml = "map (\<lambda>(a, b). a - b) (zip ?e1 ?e2)"
  let ?ms = "ewm_from (1 - 2 / (real_of_int sig + 1)) 0 0 ?ml"
  let ?mh = "map (\<lambda>(a, b). a - b) (zip ?ml ?ms)"
  have len: "length ?e1 = length ?e2" by (simp add: length_ewm_from)
  from ne have e1: "?e1 \<noteq> []" by (simp add: ewm_from_Nil_iff)
  from ne have ml: "?ml \<noteq> []" by (simp add: ewm_from_Nil_iff)
  then have ms: "?ms \<noteq> []" by (simp add: ewm_from_Nil_iff)
  from ne have mh: "?mh \<noteq> []" by (simp add: ewm_from_Nil_iff)
  from len e1 have l: "last ?ml = last ?e1 - last ?e2" by (rule last_zip_diff)
  from assms(2-4) ml ms mh l
  have "macd_body prices fast slow sig = Inr (last ?e1 - last ?e2, last ?ms, last ?mh)"
    by (simp add: macd_body_def ewm_mean_def and_then_def iloc_last_def Let_def)
  then show ?thesis by blast
qed

lemma macd_line_value:
  assumes "prices \<noteq> []" and "slow \<le> int (length prices)"
    and "1 \<le> fast" and "1 \<le> slow" and "1 \<le> sig"
  shows "fst (calculate_macd_v2 prices fast slow sig)
       = last (ewm_from (1 - 2 / (real_of_int fast + 1)) 0 0 prices)
       - last (ewm_from (1 - 2 / (real_of_int slow + 1)) 0 0 prices)"
proof -
  from macd_body_value [OF assms(1,3,4,5)] obtain s h where
    "macd_body prices fast slow sig
       = Inr (last (ewm_from (1 - 2 / (real_of_int fast + 1)) 0 0 prices)
            - last (ewm_from (1 - 2 / (real_of_int slow + 1)) 0 0 prices), s, h)"
    by blast
  with assms(2) show ?thesis by (simp add: calculate_macd_v2_def)
qed

lemma ewm_from_append:
  "ewm_from w n d (xs @ ys)
     = ewm_from w n d xs
       @ ewm_from w (foldl (\<lambda>a x. x + w * a) n xs) (foldl (\<lambda>a x. 1 + w * a) d xs) ys"
  by (induction xs arbitrary: n d) (simp_all add: Let_def)

lemma flat_sums_agree:
  "foldl (\<lambda>a x. x + w * a) s (replicate k 1) = foldl (\<lambda>a x. 1 + w * a) s (replicate k (1::real))"
  by (induction k arbitrary: s) simp_all

lemma flat_weight_sum:
  "foldl (\<lambda>a x. 1 + w * a) 0 (replicate k (1::real)) = (\<Sum>i<k. (w::real) ^ i)"
proof (induction k)
  case 0
  then show ?case by simp
next
  case (Suc k)
  have "foldl (\<lambda>a x. 1 + w * a) 0 (replicate (Suc k) (1::real))
      = 1 + w * foldl (\<lambda>a x. 1 + w * a) 0 (replicate k (1::real))"
  proof -
    have eq: "replicate (Suc k) (1::real) = replicate k 1 @ [1]"
      by (simp add: replicate_append_same)
    show ?thesis unfolding eq by simp
  qed
  also have "\<dots> = 1 + w * (\<Sum>i<k. w ^ i)" by (simp only: Suc.IH)
  also have "\<dots> = 1 + (\<Sum>i<k. w * w ^ i)"
    by (simp only: sum_distrib_left)
  also have "\<dots> = (\<Sum>i<Suc k. w ^ i)"
    by (simp del: sum.lessThan_Suc add: sum.lessThan_Suc_shift)
  finally show ?case .
qed

lemma ewm_flat_then_up:
  "last (ewm_from w 0 0 (replicate k 1 @ [2]))
     = (2 + w * (\<Sum>i<k. w ^ i)) / (1 + w * (\<Sum>i<k. w ^ i))"
  by (simp add: ewm_from_append flat_sums_agree flat_weight_sum Let_def)

lemma macd_line_flat_then_up:
  "last (ewm_from (1 - 2 / (real_of_int 12 + 1)) 0 0 flat_then_up)
   - last (ewm_from (1 - 2 / (real_of_int 26 + 1)) 0 0 flat_then_up) \<noteq> 0"
  unfolding flat_then_up_def ewm_flat_then_up
  apply (simp add: geometric_sum)
  apply (simp add: power_divide)
  done

text \<open>
  Claim C7 as stated fails for \<^verbatim>\<open>UnifiedDataProvider._calculate_macd\<close>: on 26 closes,
  fewer than 26 + 9, its guard \<^verbatim>\<open>len(prices) < slow\<close> does not fire and the MACD line
  it returns is not 0.
\<close>

theorem macd_26_points_not_zero:
  "int (length flat_then_up) < 26 + 9 \<and> calculate_macd_v2 flat_then_up 12 26 9 \<noteq> (0, 0, 0)"
proof -
  have "fst (calculate_macd_v2 flat_then_up 12 26 9) \<noteq> 0"
    using macd_line_flat_then_up by (subst macd_line_value) (simp_all add: flat_then_up_def)
  then have "calculate_macd_v2 flat_then_up 12 26 9 \<noteq> (0, 0, 0)" by auto
  then show ?thesis by (simp add: flat_then_up_def)
qed

text \<open>
  Claim C7, amended. For every price series with fewer than \<open>slow\<close> points (26 by
  default) \<^verbatim>\<open>UnifiedDataProvider._calculate_macd\<close> returns 0 for all three outputs; for
  every price series with fewer than \<open>slow + signal\<close> points (35 by default)
  \<^verbatim>\<open>TechnicalIndicators.calculate_macd\<close> of config.py does.
\<close>

theorem macd_short_series_is_zero:
  "(int (length prices) < slow \<longrightarrow> calculate_macd_v2 prices fast slow sig = (0, 0, 0))
   \<and> (int (length prices) < slow + sig \<longrightarrow> calculate_macd prices fast slow sig = (0, 0, 0))"
  by (simp add: calculate_macd_v2_def calculate_macd_def)

theorem macd_short_series_is_zero_witness:
  "int (length rising_prices) < 26 \<and> calculate_macd_v2 rising_prices 12 26 9 = (0, 0, 0)
   \<and> int (length flat_then_up) < 26 + 9 \<and> calculate_macd flat_then_up 12 26 9 = (0, 0, 0)"
  using macd_short_series_is_zero [of rising_prices 26 12 9]
        macd_short_series_is_zero [of flat_then_up 26 12 9]
  by (simp add: rising_prices_def flat_then_up_def)

section \<open>Properties of the recommendation\<close>

text \<open>
  Claim C3 as stated fails for \<^verbatim>\<open>generate_recommendation\<close>: with zero risk a final
  score of exactly 80 yields "COMPRAR" (buy), not "COMPRA FORTE" (strong buy).
\<close>

theorem final_80_is_not_strong_buy:
  "rec_action (generate_recommendation final_80_no_risk sample_data) = COMPRAR
   \<and> rec_action (generate_recommendation final_80_no_risk sample_data) \<noteq> COMPRA_FORTE"
  by (simp add: generate_recommendation_def final_80_no_risk_def Let_def)

text \<open>
  Claim C3, amended. The label of \<^verbatim>\<open>generate_recommendation\<close> is determined from the
  risk-adjusted score \<open>final - risk * 0.15\<close> by the ladder: at least 85 strong buy, at
  least 75 buy, at least 65 moderate buy, at least 55 wait, at least 40 avoid, otherwise
  sell/avoid; with zero risk a final score of 85 yields strong buy, 79.9 buy and 39.9
  sell/avoid. The ladder in \<^verbatim>\<open>main\<close> of unificado2.py reads the final score itself:
  at least 80 strong buy, at least 70 buy, at least 60 moderate buy, at least 50 wait,
  otherwise avoid; so 80 yields strong buy, 79.9 buy and 39.9 avoid.
\<close>

theorem recommendation_ladder:
  "(let s = sc_final ai - sc_risk ai * 0.15;
        a = rec_action (generate_recommendation ai data)
    in (a = COMPRA_FORTE \<longleftrightarrow> 85 \<le> s)
     \<and> (a = COMPRAR \<longleftrightarrow> 75 \<le> s \<and> s < 85)
     \<and> (a = COMPRA_MODERADA \<longleftrightarrow> 65 \<le> s \<and> s < 75)
     \<and> (a = AGUARDAR_MELHOR_ENTRADA \<longleftrightarrow> 55 \<le> s \<and> s < 65)
     \<and> (a = EVITAR \<longleftrightarrow> 40 \<le> s \<and> s < 55)
     \<and> (a = VENDER_EVITAR \<longleftrightarrow> s < 40))
   \<and> rec_action (generate_recommendation (final_80_no_risk\<lparr>sc_final := 85\<rparr>) data) = COMPRA_FORTE
   \<and> rec_action (generate_recommendation (final_80_no_risk\<lparr>sc_final := 79.9\<rparr>) data) = COMPRAR
   \<and> rec_action (generate_recommendation (final_80_no_risk\<lparr>sc_final := 39.9\<rparr>) data) = VENDER_EVITAR
   \<and> (let b = fst (main_recommendation_v2 final_score)
      in (b = COMPRA_FORTE \<longleftrightarrow> 80 \<le> final_score)
       \<and> (b = COMPRAR \<longleftrightarrow> 70 \<le> final_score \<and> final_score < 80)
       \<and> (b = COMPRA_MODERADA \<longleftrightarrow> 60 \<le> final_score \<and> final_score < 70)
       \<and> (b = AGUARDAR \<longleftrightarrow> 50 \<le> final_score \<and> final_score < 60)
       \<and> (b = EVITAR \<longleftrightarrow> final_score < 50))
   \<and> fst (main_recommendation_v2 80) = COMPRA_FORTE
   \<and> fst (main_recommendation_v2 79.9) = COMPRAR
   \<and> fst (main_recommendation_v2 39.9) = EVITAR"
  by (simp add: generate_recommendation_def main_recommendation_v2_def final_80_no_risk_def
      Let_def)

section \<open>Properties of the composite score\<close>

lemma round_nearest_cases:
  "round_nearest x = \<lfloor>x\<rfloor> \<and> x - of_int \<lfloor>x\<rfloor> \<le> 1 / 2
   \<or> round_nearest x = \<lfloor>x\<rfloor> + 1 \<and> x - of_int \<lfloor>x\<rfloor> \<ge> 1 / 2"
  by (auto simp add: round_nearest_def Let_def)

lemma round_nearest_near: "\<bar>of_int (round_nearest x) - x\<bar> \<le> 1 / 2"
proof -
  have "of_int \<lfloor>x\<rfloor> \<le> x" and "x < of_int \<lfloor>x\<rfloor> + 1" by linarith+
  with round_nearest_cases [of x] show ?thesis by auto
qed

lemma round_nearest_nonneg: "0 \<le> x \<Longrightarrow> 0 \<le> round_nearest x"
proof -
  assume "0 \<le> x"
  then have "0 \<le> \<lfloor>x\<rfloor>" by simp
  with round_nearest_cases [of x] show ?thesis by auto
qed

lemma round_nearest_le: "x \<le> of_int n \<Longrightarrow> round_nearest x \<le> n"
proof -
  assume le: "x \<le> of_int n"
  then have fl: "\<lfloor>x\<rfloor> \<le> n" by (simp add: floor_le_iff)
  show ?thesis
  proof (cases "\<lfloor>x\<rfloor> = n")
    case True
    with le have "x - of_int \<lfloor>x\<rfloor> \<le> 0" by simp
    with round_nearest_cases [of x] True show ?thesis by auto
  next
    case False
    with fl have "\<lfloor>x\<rfloor> + 1 \<le> n" by simp
    with round_nearest_cases [of x] show ?thesis by auto
  qed
qed

lemma round1_in_range: "in_range x \<Longrightarrow> in_range (round1 x)"
proof -
  assume "in_range x"
  then have "0 \<le> x * 10" and "x * 10 \<le> of_int 1000" by (simp_all add: in_range_def)
  then have "0 \<le> round_nearest (x * 10)" and "round_nearest (x * 10) \<le> 1000"
    by (simp_all add: round_nearest_nonneg round_nearest_le)
  then show ?thesis by (simp add: in_range_def round1_def)
qed

lemma round1_near: "\<bar>round1 x - x\<bar> \<le> 0.05"
proof -
  have "\<bar>of_int (round_nearest (x * 10)) - x * 10\<bar> \<le> 1 / 2"
    by (rule round_nearest_near)
  then show ?thesis by (simp add: round1_def field_simps abs_le_iff)
qed

lemma clamp_in_range: "in_range (max 0 (min 100 x))"
  by (simp add: in_range_def)

lemma technical_score_v2_in_range: "in_range (calculate_technical_score_v2 data)"
  unfolding calculate_technical_score_v2_def Let_def by (rule clamp_in_range)

lemma fundamental_score_v2_in_range: "in_range (calculate_fundamental_score_v2 data)"
  unfolding calculate_fundamental_score_v2_def Let_def by (rule clamp_in_range)

lemma momentum_score_v2_in_range: "in_range (calculate_momentum_score_v2 data)"
  unfolding calculate_momentum_score_v2_def Let_def by (rule clamp_in_range)

lemma value_score_v2_in_range: "in_range (calculate_value_score_v2 data)"
  unfolding calculate_value_score_v2_def Let_def by (rule clamp_in_range)

lemma quality_score_v2_in_range: "in_range (calculate_quality_score_v2 data)"
  unfolding calculate_quality_score_v2_def Let_def by (rule clamp_in_range)

lemma min_in_range: "0 \<le> r \<Longrightarrow> in_range (min 100 r)"
  by (simp add: in_range_def)

lemma risk_score_v2_in_range: "in_range (calculate_risk_score_v2 data)"
  unfolding calculate_risk_score_v2_def Let_def
  by (rule min_in_range) (intro add_nonneg_nonneg; simp)

lemma calculate_ai_scores_v2_in_range: "scores_in_range (calculate_ai_scores_v2 data)"
  by (simp add: scores_in_range_def calculate_ai_scores_v2_def Let_def round1_in_range
      clamp_in_range technical_score_v2_in_range fundamental_score_v2_in_range
      momentum_score_v2_in_range value_score_v2_in_range quality_score_v2_in_range
      risk_score_v2_in_range)

lemma technical_score_shape:
  "case calculate_technical_score data of
     Inl e \<Rightarrow> e = ZeroDivisionError
              \<and> bb_upper (bollinger (technical data)) = bb_lower (bollinger (technical data))
   | Inr t \<Rightarrow> in_range t
              \<and> bb_upper (bollinger (technical data)) \<noteq> bb_lower (bollinger (technical data))"
proof (cases "bb_upper (bollinger (technical data)) = bb_lower (bollinger (technical data))")
  case True
  then show ?thesis
    unfolding calculate_technical_score_def Let_def
    by (simp split del: if_split)
next
  case False
  then show ?thesis
    unfolding calculate_technical_score_def Let_def
    by (simp add: clamp_in_range split del: if_split)
qed

lemma technical_score_cases:
  "(bb_upper (bollinger (technical data)) = bb_lower (bollinger (technical data))
      \<and> calculate_technical_score data = Inl ZeroDivisionError)
   \<or> (bb_upper (bollinger (technical data)) \<noteq> bb_lower (bollinger (technical data))
      \<and> (\<exists>t. calculate_technical_score data = Inr t \<and> in_range t))"
  using technical_score_shape [of data]
  by (cases "calculate_technical_score data") auto

lemma fundamental_score_in_range: "in_range (calculate_fundamental_score data)"
  unfolding calculate_fundamental_score_def Let_def by (rule clamp_in_range)

lemma momentum_score_in_range: "in_range (calculate_momentum_score data)"
  unfolding calculate_momentum_score_def Let_def by (rule clamp_in_range)

lemma value_score_in_range: "in_range (calculate_value_score data)"
  unfolding calculate_value_score_def Let_def by (rule clamp_in_range)

lemma quality_score_in_range: "in_range (calculate_quality_score data)"
  unfolding calculate_quality_score_def Let_def by (rule clamp_in_range)

lemma risk_score_in_range: "in_range (calculate_risk_score data)"
  unfolding calculate_risk_score_def Let_def
  by (rule min_in_range) (intro add_nonneg_nonneg; simp)

lemma calculate_ai_scores_in_range:
  assumes "bb_upper (bollinger (technical data)) \<noteq> bb_lower (bollinger (technical data))"
  shows "\<exists>s. calculate_ai_scores data = Inr s \<and> scores_in_range s"
proof -
  from assms technical_score_cases [of data] obtain t
    where t: "calculate_technical_score data = Inr t" "in_range t" by auto
  then show ?thesis
    by (simp add: scores_in_range_def calculate_ai_scores_def Let_def round1_in_range
        clamp_in_range fundamental_score_in_range momentum_score_in_range
        value_score_in_range quality_score_in_range risk_score_in_range)
qed

lemma calculate_ai_scores_raises_iff:
  "calculate_ai_scores data = Inl ZeroDivisionError
   \<longleftrightarrow> bb_upper (bollinger (technical data)) = bb_lower (bollinger (technical data))"
  using technical_score_cases [of data]
  by (auto simp add: calculate_ai_scores_def Let_def)

text \<open>
  Claim C1 holds for unificado2.py (\<open>calculate_ai_scores_v2_in_range\<close>) and, in
  unificado.py, for every record whose Bollinger bands differ
  (\<open>calculate_ai_scores_in_range\<close>). On a record whose upper and lower band coincide,
  as after twenty equal closes, \<^verbatim>\<open>calculate_ai_scores\<close> of unificado.py raises
  \<^verbatim>\<open>ZeroDivisionError\<close> and produces no score, while the scoring of unificado2.py stays
  within the bounds on the same record.
\<close>

theorem equal_bollinger_bands_raise:
  "calculate_ai_scores flat_band_data = Inl ZeroDivisionError
   \<and> scores_in_range (calculate_ai_scores_v2 flat_band_data)"
proof -
  have "calculate_ai_scores flat_band_data = Inl ZeroDivisionError"
    by code_simp
  with calculate_ai_scores_v2_in_range show ?thesis by blast
qed

text \<open>
  Claim C2 as stated fails: the final score that \<^verbatim>\<open>calculate_ai_scores\<close> returns is
  rounded to one decimal place. On the sample record the weighted, clamped sum is 60.825
  and the final score is 60.8.
\<close>

theorem final_score_is_rounded:
  "sc_final (calculate_ai_scores_v2 sample_data) = 60.8
   \<and> weighted_final (calculate_technical_score_v2 sample_data)
        (calculate_fundamental_score_v2 sample_data)
        (calculate_momentum_score_v2 sample_data)
        (calculate_value_score_v2 sample_data)
        (calculate_quality_score_v2 sample_data)
        (calculate_risk_score_v2 sample_data) = 60.825"
  by code_simp

text \<open>
  Claim C2, amended. For every input for which \<^verbatim>\<open>calculate_ai_scores\<close> returns scores
  (every input in unificado2.py) the final composite score is
  technical*0.20 + fundamental*0.25 + momentum*0.15 + value*0.20 + quality*0.15
  - risk*0.05, clamped to [0, 100] and then rounded to one decimal place: a multiple of
  one tenth within 0.05 of the clamped sum, the sub-scores being those computed before
  they are rounded for the result. Two inputs with the same six sub-scores get the same
  final score: it depends on nothing but the six sub-scores and the fixed weights.
\<close>

theorem final_score_formula:
  "(\<exists>k::int. sc_final (calculate_ai_scores_v2 data) = of_int k / 10)
   \<and> \<bar>sc_final (calculate_ai_scores_v2 data)
        - weighted_final (calculate_technical_score_v2 data)
            (calculate_fundamental_score_v2 data) (calculate_momentum_score_v2 data)
            (calculate_value_score_v2 data) (calculate_quality_score_v2 data)
            (calculate_risk_score_v2 data)\<bar> \<le> 0.05
   \<and> (calculate_technical_score_v2 data = calculate_technical_score_v2 data'
      \<and> calculate_fundamental_score_v2 data = calculate_fundamental_score_v2 data'
      \<and> calculate_momentum_score_v2 data = calculate_momentum_score_v2 data'
      \<and> calculate_value_score_v2 data = calculate_value_score_v2 data'
      \<and> calculate_quality_score_v2 data = calculate_quality_score_v2 data'
      \<and> calculate_risk_score_v2 data = calculate_risk_score_v2 data'
      \<longrightarrow> sc_final (calculate_ai_scores_v2 data) = sc_final (calculate_ai_scores_v2 data'))
   \<and> (calculate_ai_scores data = Inr s \<longrightarrow>
        (\<exists>t. calculate_technical_score data = Inr t
           \<and> (\<exists>k::int. sc_final s = of_int k / 10)
           \<and> \<bar>sc_final s - weighted_final t (calculate_fundamental_score data)
                 (calculate_momentum_score data) (calculate_value_score data)
                 (calculate_quality_score data) (calculate_risk_score data)\<bar> \<le> 0.05))
   \<and> (calculate_ai_scores data = Inr s \<and> calculate_ai_scores data' = Inr s'
      \<and> calculate_technical_score data = calculate_technical_score data'
      \<and> calculate_fundamental_score data = calculate_fundamental_score data'
      \<and> calculate_momentum_score data = calculate_momentum_score data'
      \<and> calculate_value_score data = calculate_value_score data'
      \<and> calculate_quality_score data = calculate_quality_score data'
      \<and> calculate_risk_score data = calculate_risk_score data'
      \<longrightarrow> sc_final s = sc_final s')"
proof -
  have tenth: "\<exists>k::int. round1 x = of_int k / 10" for x
    by (auto simp add: round1_def)
  have a: "sc_final (calculate_ai_scores_v2 d)
     = round1 (weighted_final (calculate_technical_score_v2 d)
                 (calculate_fundamental_score_v2 d) (calculate_momentum_score_v2 d)
                 (calculate_value_score_v2 d) (calculate_quality_score_v2 d)
                 (calculate_risk_score_v2 d))" for d
    by (simp add: calculate_ai_scores_v2_def weighted_final_def Let_def)
  have b: "\<exists>t. calculate_technical_score d = Inr t
           \<and> sc_final r = round1 (weighted_final t (calculate_fundamental_score d)
                 (calculate_momentum_score d) (calculate_value_score d)
                 (calculate_quality_score d) (calculate_risk_score d))"
    if "calculate_ai_scores d = Inr r" for d r
    using that
    by (cases "calculate_technical_score d")
       (auto simp add: calculate_ai_scores_def weighted_final_def Let_def)
  have c1: "\<exists>k::int. sc_final (calculate_ai_scores_v2 data) = of_int k / 10"
    by (simp only: a tenth)
  have c2: "\<bar>sc_final (calculate_ai_scores_v2 data)
        - weighted_final (calculate_technical_score_v2 data)
            (calculate_fundamental_score_v2 data) (calculate_momentum_score_v2 data)
            (calculate_value_score_v2 data) (calculate_quality_score_v2 data)
            (calculate_risk_score_v2 data)\<bar> \<le> 0.05"
    by (simp only: a round1_near)
  have c3: "sc_final (calculate_ai_scores_v2 data) = sc_final (calculate_ai_scores_v2 data')"
    if "calculate_technical_score_v2 data = calculate_technical_score_v2 data'
      \<and> calculate_fundamental_score_v2 data = calculate_fundamental_score_v2 data'
      \<and> calculate_momentum_score_v2 data = calculate_momentum_score_v2 data'
      \<and> calculate_value_score_v2 data = calculate_value_score_v2 data'
      \<and> calculate_quality_score_v2 data = calculate_quality_score_v2 data'
      \<and> calculate_risk_score_v2 data = calculate_risk_score_v2 data'"
    using that by (simp only: a)
  have c4: "\<exists>t. calculate_technical_score data = Inr t
           \<and> (\<exists>k::int. sc_final s = of_int k / 10)
           \<and> \<bar>sc_final s - weighted_final t (calculate_fundamental_score data)
                 (calculate_momentum_score data) (calculate_value_score data)
                 (calculate_quality_score data) (calculate_risk_score data)\<bar> \<le> 0.05"
    if "calculate_ai_scores data = Inr s"
  proof -
    from b [OF that] obtain t where t: "calculate_technical_score data = Inr t"
      and f: "sc_final s = round1 (weighted_final t (calculate_fundamental_score data)
                 (calculate_momentum_score data) (calculate_value_score data)
                 (calculate_quality_score data) (calculate_risk_score data))"
      by blast
    from f tenth have "\<exists>k::int. sc_final s = of_int k / 10" by simp
    moreover from f round1_near
    have "\<bar>sc_final s - weighted_final t (calculate_fundamental_score data)
                 (calculate_momentum_score data) (calculate_value_score data)
                 (calculate_quality_score data) (calculate_risk_score data)\<bar> \<le> 0.05"
      by simp
    ultimately show ?thesis using t by blast
  qed
  have c5: "sc_final s = sc_final s'"
    if "calculate_ai_scores data = Inr s" and "calculate_ai_scores data' = Inr s'"
      and "calculate_technical_score data = calculate_technical_score data'"
      and "calculate_fundamental_score data = calculate_fundamental_score data'"
      and "calculate_momentum_score data = calculate_momentum_score data'"
      and "calculate_value_score data = calculate_value_score data'"
      and "calculate_quality_score data = calculate_quality_score data'"
      and "calculate_risk_score data = calculate_risk_score data'"
  proof -
    from b [OF that(1)] b [OF that(2)] that(3-8) show ?thesis by auto
  qed
  from c1 c2 c3 c4 c5 show ?thesis by blast
qed

theorem final_score_formula_witness:
  "calculate_ai_scores sample_data
     = Inr \<lparr> sc_technical = 73, sc_fundamental = 75, sc_momentum = 51, sc_value = 65,
             sc_quality = 60, sc_risk = 20, sc_final = 62 \<rparr>
   \<and> calculate_ai_scores (sample_data \<lparr> symbol := ''BBB'' \<rparr>)
     = Inr \<lparr> sc_technical = 73, sc_fundamental = 75, sc_momentum = 51, sc_value = 65,
             sc_quality = 60, sc_risk = 20, sc_final = 62 \<rparr>
   \<and> calculate_technical_score sample_data = Inr 73
   \<and> \<bar>62 - weighted_final 73 (calculate_fundamental_score sample_data)
            (calculate_momentum_score sample_data) (calculate_value_score sample_data)
            (calculate_quality_score sample_data) (calculate_risk_score sample_data)\<bar> \<le> 0.05
   \<and> sc_final (calculate_ai_scores_v2 sample_data)
       = sc_final (calculate_ai_scores_v2 (sample_data \<lparr> symbol := ''BBB'' \<rparr>))"
proof -
  let ?s = "\<lparr> sc_technical = 73, sc_fundamental = 75, sc_momentum = 51, sc_value = 65,
             sc_quality = 60, sc_risk = 20, sc_final = 62 \<rparr>"
  let ?d = "sample_data \<lparr> symbol := ''BBB'' \<rparr>"
  have h1: "calculate_ai_scores sample_data = Inr ?s" by code_simp
  have h2: "calculate_ai_scores ?d = Inr ?s" by code_simp
  have t: "calculate_technical_score sample_data = Inr 73" by code_simp
  have e: "calculate_technical_score_v2 sample_data = calculate_technical_score_v2 ?d
      \<and> calculate_fundamental_score_v2 sample_data = calculate_fundamental_score_v2 ?d
      \<and> calculate_momentum_score_v2 sample_data = calculate_momentum_score_v2 ?d
      \<and> calculate_value_score_v2 sample_data = calculate_value_score_v2 ?d
      \<and> calculate_quality_score_v2 sample_data = calculate_quality_score_v2 ?d
      \<and> calculate_risk_score_v2 sample_data = calculate_risk_score_v2 ?d"
    by code_simp
  note T = final_score_formula [where data = sample_data and data' = ?d and s = ?s and s' = ?s]
  from T e have w5: "sc_final (calculate_ai_scores_v2 sample_data)
       = sc_final (calculate_ai_scores_v2 ?d)"
    by blast
  from T h1 t have w4: "\<bar>62 - weighted_final 73 (calculate_fundamental_score sample_data)
            (calculate_momentum_score sample_data) (calculate_value_score sample_data)
            (calculate_quality_score sample_data) (calculate_risk_score sample_data)\<bar> \<le> 0.05"
    by auto
  from h1 h2 t w4 w5 show ?thesis by (intro conjI)
qed

section \<open>Properties of the scan\<close>



























end
